theory Spec2Isabelle
  imports Main "HOL-Library.Sublist"
begin

section \<open>Python values used by the backend\<close>

text \<open>
  A Python \<open>str\<close> is modelled as a \<open>string\<close>; one \<open>char\<close> stands for one Python character
  (a code point below 256), so \<open>length\<close> is Python's \<open>len\<close> on such text.

  The exceptions that the backend distinguishes by class. Every constructor is a subclass
  of \<open>Exception\<close>; the argument is \<open>str(e)\<close>. \<open>OtherException\<close> stands for every remaining
  subclass of \<open>Exception\<close>. What no \<open>except Exception\<close> catches (\<open>KeyboardInterrupt\<close>,
  \<open>SystemExit\<close>) is outside the model.
\<close>

datatype pyexn =
    NotFoundError string
  | BadRequestError string
  | ImportError string
  | AttributeError string
  | OtherException string

fun str_exn :: "pyexn \<Rightarrow> string" where
  "str_exn (NotFoundError msg) = msg"
| "str_exn (BadRequestError msg) = msg"
| "str_exn (ImportError msg) = msg"
| "str_exn (AttributeError msg) = msg"
| "str_exn (OtherException msg) = msg"

text \<open>\<open>str(last_error)\<close>, where \<open>last_error\<close> may still be \<open>None\<close>.\<close>

fun str_last_error :: "pyexn option \<Rightarrow> string" where
  "str_last_error None = ''None''"
| "str_last_error (Some e) = str_exn e"

text \<open>Python's \<open>sub in s\<close> on strings: \<open>sub\<close> occurs in \<open>s\<close> as a contiguous substring.\<close>

fun str_contains :: "string \<Rightarrow> string \<Rightarrow> bool" where
  "str_contains sub [] = (sub = [])"
| "str_contains sub (c # cs) = (prefix sub (c # cs) \<or> str_contains sub cs)"


section \<open>The AI invoker: \<open>call_claude_api\<close> (main.py)\<close>

text \<open>
  One call of \<open>client.messages.create\<close>. The temperature is the constant 0.0 in both call
  sites and is left out; \<open>messages\<close> is the content of the single user message.
\<close>

record request =
  model :: string
  max_tokens :: nat
  messages :: string

text \<open>
  What the body of a \<open>try\<close> around one request does: it returns
  \<open>response.content[0].text\<close>, or an exception is raised in it.
\<close>

datatype outcome = Returns string | Raises pyexn

text \<open>
  The remote endpoint. Its answer may depend on the request and on how many requests this
  invocation has issued before it, so that a repeated request may be answered differently.
\<close>

type_synonym client = "nat \<Rightarrow> request \<Rightarrow> outcome"

definition models_to_try :: "string list" where
  "models_to_try =
     [''claude-3-5-sonnet-20241022'',
      ''claude-3-5-sonnet-20240620'',
      ''claude-3-opus-20240229'',
      ''claude-3-sonnet-20240229'',
      ''claude-3-haiku-20240307'']"

definition max_tokens_limit :: "string \<Rightarrow> nat" where
  "max_tokens_limit model_name = (if str_contains ''3-5'' model_name then 8192 else 4096)"

text \<open>The request of the first \<open>try\<close> of the loop body, and the one of the retry.\<close>

definition first_request :: "string \<Rightarrow> string \<Rightarrow> request" where
  "first_request prompt model_name =
     \<lparr>model = model_name, max_tokens = max_tokens_limit model_name, messages = prompt\<rparr>"

definition retry_request :: "string \<Rightarrow> string \<Rightarrow> request" where
  "retry_request prompt model_name =
     \<lparr>model = model_name, max_tokens = 4096, messages = prompt\<rparr>"

text \<open>
  How the \<open>for\<close> loop ends: a \<open>return\<close> inside the body, or the loop runs out of
  candidates with the current value of \<open>last_error\<close>.
\<close>

datatype loop_end = Returned string | Exhausted "pyexn option"

text \<open>The requests \<open>rs\<close> were issued, and then the rest of the loop ran.\<close>

definition issued_then ::
  "request list \<Rightarrow> loop_end \<times> request list \<Rightarrow> loop_end \<times> request list" where
  "issued_then rs run = (fst run, rs @ snd run)"

text \<open>
  The loop \<open>for model_name in models_to_try\<close>. The arguments are the candidates still to
  try, the number \<open>k\<close> of requests issued so far and \<open>last_error\<close>; the result is how the
  loop ends together with the requests issued from here on, in order. The \<open>print\<close> calls
  are left out.
\<close>

fun models_loop ::
  "client \<Rightarrow> string \<Rightarrow> string list \<Rightarrow> nat \<Rightarrow> pyexn option \<Rightarrow> loop_end \<times> request list" where
  "models_loop create prompt [] k last_error = (Exhausted last_error, [])"
| "models_loop create prompt (model_name # rest) k last_error =
     (let r = first_request prompt model_name
      in case create k r of
           Returns text \<Rightarrow> (Returned text, [r])
         | Raises (NotFoundError msg) \<Rightarrow>
             issued_then [r]
               (models_loop create prompt rest (Suc k) (Some (NotFoundError msg)))
         | Raises (BadRequestError msg) \<Rightarrow>
             if str_contains ''max_tokens'' msg \<and> max_tokens_limit model_name > 4096 then
               (let r' = retry_request prompt model_name
                in case create (Suc k) r' of
                     Returns text \<Rightarrow> (Returned text, [r, r'])
                   | Raises retry_e \<Rightarrow>
                       issued_then [r, r']
                         (models_loop create prompt rest (Suc (Suc k)) (Some retry_e)))
             else
               issued_then [r]
                 (models_loop create prompt rest (Suc k) (Some (BadRequestError msg)))
         | Raises e \<Rightarrow>
             (Returned (''Error with model '' @ model_name @ '': '' @ str_exn e), [r]))"

text \<open>
  What \<open>call_claude_api\<close> reads from its surroundings: the environment variable, whether
  \<open>import anthropic\<close> raises, and the constructor \<open>anthropic.Anthropic(api_key=...)\<close>, which
  raises or gives the client.
\<close>

record environment =
  ANTHROPIC_API_KEY :: "string option"
  import_anthropic :: "pyexn option"
  Anthropic :: "string \<Rightarrow> pyexn + client"

text \<open>The two \<open>except\<close> clauses of the outer \<open>try\<close>.\<close>

fun outer_except :: "pyexn \<Rightarrow> string" where
  "outer_except (ImportError msg) = ''Error: anthropic library not installed.''"
| "outer_except e = ''Error calling Claude API: '' @ str_exn e"

definition exhausted_message :: "pyexn option \<Rightarrow> string" where
  "exhausted_message last_error =
     ''Error: No working Claude model found. Last error: '' @ str_last_error last_error"

text \<open>
  \<open>try: ... except Exception as e: ...\<close>. Every \<open>pyexn\<close> is an \<open>Exception\<close>, so the handler
  receives whatever the body raises.
\<close>

definition try_except :: "pyexn + 'a \<Rightarrow> (pyexn \<Rightarrow> pyexn + 'a) \<Rightarrow> pyexn + 'a" where
  "try_except body handler = (case body of Inl e \<Rightarrow> handler e | Inr v \<Rightarrow> Inr v)"

text \<open>
  The body of the outer \<open>try\<close> of \<open>call_claude_api\<close>, paired with the requests it issued:
  the import, the construction of the client, the loop and the final \<open>return\<close>.
\<close>

definition call_claude_api_body ::
  "environment \<Rightarrow> string \<Rightarrow> string \<Rightarrow> (pyexn + string) \<times> request list" where
  "call_claude_api_body env api_key prompt =
     (case import_anthropic env of
        Some e \<Rightarrow> (Inl e, [])
      | None \<Rightarrow>
         (case Anthropic env api_key of
            Inl e \<Rightarrow> (Inl e, [])
          | Inr create \<Rightarrow>
             (case models_loop create prompt models_to_try 0 None of
                (Returned text, tr) \<Rightarrow> (Inr text, tr)
              | (Exhausted last_error, tr) \<Rightarrow> (Inr (exhausted_message last_error), tr))))"

text \<open>
  \<open>call_claude_api\<close>: an exception that leaves the function (\<open>Inl\<close>), or its value, which is
  \<open>None\<close> (no key) or a string; paired with the requests it issued.
\<close>

definition call_claude_api ::
  "environment \<Rightarrow> string \<Rightarrow> (pyexn + string option) \<times> request list" where
  "call_claude_api env prompt =
     (case ANTHROPIC_API_KEY env of
        None \<Rightarrow> (Inr None, [])
      | Some api_key \<Rightarrow>
          if api_key = [] then (Inr None, [])
          else (case call_claude_api_body env api_key prompt of
                  (body, tr) \<Rightarrow>
                    (try_except (map_sum id Some body) (\<lambda>e. Inr (Some (outer_except e))), tr)))"


text \<open>
  The surroundings in which \<open>call_claude_api\<close> reaches its loop with the client
  \<open>create\<close>: a key that is not empty, an import and a constructor that do not raise.
\<close>

definition connects :: "environment \<Rightarrow> client \<Rightarrow> bool" where
  "connects env create =
     (case ANTHROPIC_API_KEY env of
        None \<Rightarrow> False
      | Some api_key \<Rightarrow>
          api_key \<noteq> [] \<and> import_anthropic env = None \<and> Anthropic env api_key = Inr create)"

text \<open>
  A request of the first \<open>try\<close> of the loop body asks for the ceiling of its model; the
  retry asks for 4096 where that ceiling is higher.
\<close>

definition is_first_attempt :: "request \<Rightarrow> bool" where
  "is_first_attempt r = (max_tokens r = max_tokens_limit (model r))"

text \<open>
  The request \<open>r\<close>, issued after \<open>k\<close> others, raises, and in a way after which the loop goes
  on: a first attempt with one of the two classes that have an \<open>except\<close> clause ending in
  \<open>continue\<close>, the retry with any exception.
\<close>

definition fails_on :: "client \<Rightarrow> nat \<Rightarrow> request \<Rightarrow> bool" where
  "fails_on create k r =
     (\<exists>e. create k r = Raises e \<and>
          (is_first_attempt r \<longrightarrow> (\<exists>msg. e = NotFoundError msg \<or> e = BadRequestError msg)))"


section \<open>The extractor (extractor.py)\<close>

text \<open>
  \<open>os.path.splitext\<close> of the Python standard library, as it works on POSIX paths:
  the extension starts at the last dot of the last path component, unless that component
  consists of leading dots only up to there. \<open>rfind\<close> is \<open>str.rfind\<close> for one character:
  the highest index, or -1.
\<close>

fun rfind :: "char \<Rightarrow> string \<Rightarrow> int" where
  "rfind c [] = - 1"
| "rfind c (x # xs) =
     (let r = rfind c xs in if 0 \<le> r then r + 1 else if x = c then 0 else - 1)"

text \<open>
  The \<open>while filenameIndex < dotIndex\<close> loop of \<open>splitext\<close>: whether a character other
  than the dot stands between the two indices.
\<close>

function skip_leading_dots :: "string \<Rightarrow> nat \<Rightarrow> nat \<Rightarrow> bool" where
  "skip_leading_dots p filenameIndex dotIndex =
     (if filenameIndex < dotIndex then
        (if take 1 (drop filenameIndex p) \<noteq> ''.'' then True
         else skip_leading_dots p (filenameIndex + 1) dotIndex)
      else False)"
  by pat_completeness auto
termination
  by (relation "measure (\<lambda>(p, filenameIndex, dotIndex). dotIndex - filenameIndex)") auto

declare skip_leading_dots.simps [simp del]

definition splitext :: "string \<Rightarrow> string \<times> string" where
  "splitext p =
     (let sepIndex = rfind CHR ''/'' p;
          dotIndex = rfind CHR ''.'' p
      in if dotIndex > sepIndex \<and> skip_leading_dots p (nat (sepIndex + 1)) (nat dotIndex)
         then (take (nat dotIndex) p, drop (nat dotIndex) p)
         else (p, []))"

text \<open>
  \<open>str.lower\<close> on characters below 256: the letters A-Z and the capital letters of
  Latin-1 (192-222 but the multiplication sign 215) move up by 32, which sets the bit of
  value 32, clear in both ranges; every other character stays.
\<close>

fun lower_char :: "char \<Rightarrow> char" where
  "lower_char (Char b0 b1 b2 b3 b4 b5 b6 b7) =
     (let n = (of_char (Char b0 b1 b2 b3 b4 b5 b6 b7) :: nat) in
      if (65 \<le> n \<and> n \<le> 90) \<or> (192 \<le> n \<and> n \<le> 222 \<and> n \<noteq> 215)
      then Char b0 b1 b2 b3 b4 True b6 b7
      else Char b0 b1 b2 b3 b4 b5 b6 b7)"

definition lower :: "string \<Rightarrow> string" where
  "lower s = map lower_char s"

text \<open>
  The parsing libraries, as functions of the path they are given. A constructor raises or
  gives the document's parts in document order:
  \<^item> \<open>PdfReader\<close>: the pages, each by what \<open>page.extract_text()\<close> does;
  \<^item> \<open>Document\<close>: the paragraphs, each by what \<open>para.text\<close> does;
  \<^item> \<open>Presentation\<close>: the slides, each the list of its shapes, a shape by what reading
    its attribute \<open>text\<close> does (\<open>AttributeError\<close> when it has none).
\<close>

record libraries =
  PdfReader :: "string \<Rightarrow> pyexn + (pyexn + string) list"
  Document :: "string \<Rightarrow> pyexn + (pyexn + string) list"
  Presentation :: "string \<Rightarrow> pyexn + (pyexn + string) list list"

text \<open>\<open>for page in reader.pages: text += page.extract_text() + "\n"\<close>\<close>

fun pdf_pages_loop :: "(pyexn + string) list \<Rightarrow> string \<Rightarrow> pyexn + string" where
  "pdf_pages_loop [] text = Inr text"
| "pdf_pages_loop (page # pages) text =
     (case page of
        Inl e \<Rightarrow> Inl e
      | Inr page_text \<Rightarrow> pdf_pages_loop pages (text @ page_text @ ''\<newline>''))"

text \<open>The body of the \<open>try\<close> of \<open>extract_text_from_pdf\<close>, and the function.\<close>

definition pdf_try_body :: "libraries \<Rightarrow> string \<Rightarrow> pyexn + string" where
  "pdf_try_body libs file_path =
     (case PdfReader libs file_path of
        Inl e \<Rightarrow> Inl e
      | Inr pages \<Rightarrow> pdf_pages_loop pages [])"

definition extract_text_from_pdf :: "libraries \<Rightarrow> string \<Rightarrow> pyexn + string" where
  "extract_text_from_pdf libs file_path =
     try_except (pdf_try_body libs file_path)
       (\<lambda>e. Inr (''Error extracting PDF: '' @ str_exn e))"

text \<open>The list comprehension \<open>[para.text for para in doc.paragraphs]\<close> and \<open>str.join\<close>.\<close>

fun comprehension :: "(pyexn + 'a) list \<Rightarrow> pyexn + 'a list" where
  "comprehension [] = Inr []"
| "comprehension (x # xs) =
     (case x of
        Inl e \<Rightarrow> Inl e
      | Inr v \<Rightarrow> (case comprehension xs of Inl e \<Rightarrow> Inl e | Inr vs \<Rightarrow> Inr (v # vs)))"

fun join :: "string \<Rightarrow> string list \<Rightarrow> string" where
  "join sep [] = []"
| "join sep [x] = x"
| "join sep (x # y # ys) = x @ sep @ join sep (y # ys)"

definition docx_try_body :: "libraries \<Rightarrow> string \<Rightarrow> pyexn + string" where
  "docx_try_body libs file_path =
     (case Document libs file_path of
        Inl e \<Rightarrow> Inl e
      | Inr paragraphs \<Rightarrow>
         (case comprehension paragraphs of
            Inl e \<Rightarrow> Inl e
          | Inr texts \<Rightarrow> Inr (join ''\<newline>'' texts)))"

definition extract_text_from_docx :: "libraries \<Rightarrow> string \<Rightarrow> pyexn + string" where
  "extract_text_from_docx libs file_path =
     try_except (docx_try_body libs file_path)
       (\<lambda>e. Inr (''Error extracting DOCX: '' @ str_exn e))"

text \<open>
  \<open>for shape in slide.shapes: if hasattr(shape, "text"): text += shape.text + "\n"\<close>.
  \<open>hasattr\<close> is false exactly when reading the attribute raises \<open>AttributeError\<close>; any
  other exception leaves it.
\<close>

fun pptx_shapes_loop :: "(pyexn + string) list \<Rightarrow> string \<Rightarrow> pyexn + string" where
  "pptx_shapes_loop [] text = Inr text"
| "pptx_shapes_loop (shape # shapes) text =
     (case shape of
        Inl (AttributeError msg) \<Rightarrow> pptx_shapes_loop shapes text
      | Inl e \<Rightarrow> Inl e
      | Inr shape_text \<Rightarrow> pptx_shapes_loop shapes (text @ shape_text @ ''\<newline>''))"

fun pptx_slides_loop :: "(pyexn + string) list list \<Rightarrow> string \<Rightarrow> pyexn + string" where
  "pptx_slides_loop [] text = Inr text"
| "pptx_slides_loop (slide # slides) text =
     (case pptx_shapes_loop slide text of
        Inl e \<Rightarrow> Inl e
      | Inr text' \<Rightarrow> pptx_slides_loop slides text')"

definition pptx_try_body :: "libraries \<Rightarrow> string \<Rightarrow> pyexn + string" where
  "pptx_try_body libs file_path =
     (case Presentation libs file_path of
        Inl e \<Rightarrow> Inl e
      | Inr slides \<Rightarrow> pptx_slides_loop slides [])"

definition extract_text_from_pptx :: "libraries \<Rightarrow> string \<Rightarrow> pyexn + string" where
  "extract_text_from_pptx libs file_path =
     try_except (pptx_try_body libs file_path)
       (\<lambda>e. Inr (''Error extracting PPTX: '' @ str_exn e))"

definition extract_text :: "libraries \<Rightarrow> string \<Rightarrow> pyexn + string" where
  "extract_text libs file_path =
     (let ext = lower (snd (splitext file_path))
      in if ext = ''.pdf'' then extract_text_from_pdf libs file_path
         else if ext = ''.docx'' then extract_text_from_docx libs file_path
         else if ext = ''.pptx'' then extract_text_from_pptx libs file_path
         else Inr (''Unsupported file format: '' @ ext))"


section \<open>The exporter: \<open>download_result\<close> (main.py)\<close>

record DownloadRequest =
  content :: string
  format :: string
  filename :: string

text \<open>
  \<open>str.split(sep)\<close> for a separator of one character: the pieces between the occurrences
  of the separator, so always at least one piece.
\<close>

fun str_split :: "char \<Rightarrow> string \<Rightarrow> string list" where
  "str_split sep [] = [[]]"
| "str_split sep (c # cs) =
     (if c = sep then [] # str_split sep cs
      else (case str_split sep cs of
              piece # pieces \<Rightarrow> (c # piece) # pieces
            | [] \<Rightarrow> [[c]]))"

text \<open>The argument of \<open>textLine\<close>: \<open>line[:90] + ("..." if len(line) > 90 else "")\<close>.\<close>

definition textLine_arg :: "string \<Rightarrow> string" where
  "textLine_arg line = take 90 line @ (if length line > 90 then ''...'' else [])"

text \<open>
  \<open>reportlab.lib.pagesizes.letter\<close> is 8.5 by 11 inches of 72 points: (612.0, 792.0). These
  floats and every value that \<open>y\<close> takes are small whole numbers, on which the float
  arithmetic of \<open>y -= 12\<close> and \<open>height - 40\<close> is exact, so they are integers here.
\<close>

definition letter :: "int \<times> int" where
  "letter = (612, 792)"

text \<open>
  A text object is the list of the lines given to \<open>textLine\<close>, each with the value of the
  cursor \<open>y\<close> at that call. \<open>c.drawText(text_object); c.showPage()\<close> ends a page that shows
  the lines of the text object.
\<close>

type_synonym text_object = "(int \<times> string) list"

text \<open>
  The loop \<open>for line in lines\<close>, on the pages ended so far, the current text object and
  the cursor \<open>y\<close>.
\<close>

fun pdf_lines_loop ::
  "int \<Rightarrow> string list \<Rightarrow> text_object list \<Rightarrow> text_object \<Rightarrow> int
     \<Rightarrow> text_object list \<times> text_object" where
  "pdf_lines_loop height [] pages text_object y = (pages, text_object)"
| "pdf_lines_loop height (line # lines) pages text_object y =
     (let (pages', text_object', y') =
            (if y < 40 then (pages @ [text_object], [], height - 40)
             else (pages, text_object, y))
      in pdf_lines_loop height lines pages'
           (text_object' @ [(y', textLine_arg line)]) (y' - 12))"

text \<open>
  The cursor positions on a page as they should be: the first line at the page height
  minus 40, every further line 12 below the one before.
\<close>

definition page_cursor_ok :: "(int \<times> string) list \<Rightarrow> bool" where
  "page_cursor_ok page =
     (map fst page = map (\<lambda>i. snd letter - 40 - 12 * int i) [0..<length page])"

text \<open>
  The pages of the document that the \<open>pdf\<close> branch builds: the final
  \<open>c.drawText(text_object); c.save()\<close> ends the last page.
\<close>

definition pdf_pages :: "string \<Rightarrow> text_object list" where
  "pdf_pages content' =
     (let height = snd letter;
          lines = str_split CHR ''\<newline>'' content'
      in case pdf_lines_loop height lines [] [] (height - 40) of
           (pages, text_object) \<Rightarrow> pages @ [text_object])"

datatype payload = Text string | PdfDocument "text_object list"

record Response =
  response_content :: payload
  media_type :: string
  headers :: "(string \<times> string) list"

datatype http_error = HTTPException nat string

definition download_result :: "DownloadRequest \<Rightarrow> http_error + Response" where
  "download_result request' =
     (let fmt = lower (format request')
      in if fmt = ''md'' then
           Inr \<lparr>response_content = Text (content request'),
                media_type = ''text/markdown'',
                headers = [(''Content-Disposition'',
                            ''attachment; filename='' @ filename request' @ ''.md'')]\<rparr>
         else if fmt = ''txt'' then
           Inr \<lparr>response_content = Text (content request'),
                media_type = ''text/plain'',
                headers = [(''Content-Disposition'',
                            ''attachment; filename='' @ filename request' @ ''.txt'')]\<rparr>
         else if fmt = ''pdf'' then
           Inr \<lparr>response_content = PdfDocument (pdf_pages (content request')),
                media_type = ''application/pdf'',
                headers = [(''Content-Disposition'',
                            ''attachment; filename='' @ filename request' @ ''.pdf'')]\<rparr>
         else Inl (HTTPException 400 ''Unsupported format''))"


section \<open>The upload handler: \<open>upload_files\<close> (main.py)\<close>

text \<open>\<open>str(n)\<close> for a natural number: its decimal digits.\<close>

fun str_nat :: "nat \<Rightarrow> string" where
  "str_nat n =
     (if n < 10 then [''0123456789'' ! n]
      else str_nat (n div 10) @ [''0123456789'' ! (n mod 10)])"

declare str_nat.simps [simp del]

text \<open>The f-string of the simulated response.\<close>

definition mock_response :: "string \<Rightarrow> string \<Rightarrow> string" where
  "mock_response file_name extracted_text =
     ''\<newline># Extracted Structure for '' @ file_name @ '' (SIMULATION)\<newline>''
     @ ''\<newline>''
     @ ''(No valid ANTHROPIC_API_KEY found in backend/.env, so this is a simulated response.)\<newline>''
     @ ''\<newline>''
     @ ''## Summary\<newline>''
     @ ''The document contains '' @ str_nat (length extracted_text) @ '' characters.\<newline>''
     @ ''\<newline>''
     @ ''## Mock Data Points\<newline>''
     @ ''- **Category 1**: Simulation Data A\<newline>''
     @ ''- **Category 2**: Simulation Data B\<newline>''"

text \<open>\<open>os.path.join(TEMP_DIR, file.filename)\<close> on POSIX paths, with \<open>TEMP_DIR\<close> not empty.\<close>

definition TEMP_DIR :: string where
  "TEMP_DIR = ''temp_uploads''"

definition temp_path :: "string \<Rightarrow> string" where
  "temp_path file_name =
     (if take 1 file_name = ''/'' then file_name else TEMP_DIR @ ''/'' @ file_name)"

text \<open>
  \<open>if not ai_response: ai_response = f"""..."""\<close>: \<open>None\<close> and the empty string are the
  values of \<open>call_claude_api\<close> that Python takes as false.
\<close>

fun or_mock :: "string option \<Rightarrow> string \<Rightarrow> string" where
  "or_mock None mock = mock"
| "or_mock (Some ai_response) mock = (if ai_response = [] then mock else ai_response)"

text \<open>
  The body of the loop \<open>for file in files\<close>, for an upload of the given name: the entry
  appended to \<open>results\<close> (a dictionary, as the list of its items), or the exception that
  leaves the handler.
  \<^item> \<open>save_upload\<close> is what \<open>with open(file_path, "wb") as buffer:
    shutil.copyfileobj(file.file, buffer)\<close> does for a path: it raises the given exception
    or succeeds. It stands in no \<open>try\<close>, so its exception leaves the handler.
  \<^item> The libraries are functions of the path, so the bytes written are not modelled.
  \<^item> \<open>get_prompt_for_data\<close> of the module \<open>prompts\<close> is a parameter.
  \<^item> \<open>os.remove(file_path)\<close> stands in a \<open>try\<close> with a bare \<open>except: pass\<close> and so changes
    nothing in the result.
\<close>

definition upload_file ::
  "(string \<Rightarrow> pyexn option) \<Rightarrow> libraries \<Rightarrow> environment \<Rightarrow> (string \<Rightarrow> string) \<Rightarrow> string
     \<Rightarrow> pyexn + (string \<times> string) list" where
  "upload_file save_upload libs env get_prompt_for_data file_name =
     (let file_path = temp_path file_name
      in case save_upload file_path of
           Some e \<Rightarrow> Inl e
         | None \<Rightarrow>
            (case extract_text libs file_path of
               Inl e \<Rightarrow> Inl e
             | Inr extracted_text \<Rightarrow>
                (let prompt = get_prompt_for_data extracted_text
                 in case fst (call_claude_api env prompt) of
                      Inl e \<Rightarrow> Inl e
                    | Inr ai_response \<Rightarrow>
                       (let ai_response' =
                              or_mock ai_response (mock_response file_name extracted_text)
                        in Inr [(''filename'', file_name),
                                (''extracted_text_preview'',
                                 take 500 extracted_text @ ''...''),
                                (''generated_prompt'', prompt),
                                (''ai_response'', ai_response')]))))"


section \<open>Example surroundings\<close>

text \<open>Concrete clients and surroundings, on which the properties below are evaluated.\<close>

definition example_env :: "client \<Rightarrow> environment" where
  "example_env create =
     \<lparr>ANTHROPIC_API_KEY = Some ''sk-test'', import_anthropic = None,
      Anthropic = (\<lambda>api_key. Inr create)\<rparr>"

definition not_found_then_ok :: client where
  "not_found_then_ok k r = (if k < 4 then Raises (NotFoundError ''gone'') else Returns ''ok'')"

definition token_limit_then_overloaded :: client where
  "token_limit_then_overloaded k r =
     (if k = 0 then Raises (BadRequestError ''max_tokens: 8192 > 4096'')
      else if k = 1 then Raises (OtherException ''overloaded'')
      else Returns ''ok'')"

definition always_not_found :: client where
  "always_not_found k r = Raises (NotFoundError ''gone'')"

definition not_found_then_crash :: client where
  "not_found_then_crash k r =
     (if k < 4 then Raises (NotFoundError ''gone'') else Raises (OtherException ''boom''))"

definition always_token_limit :: client where
  "always_token_limit k r = Raises (BadRequestError ''max_tokens too large'')"

definition crash_on_second :: client where
  "crash_on_second k r =
     (if k = 0 then Raises (NotFoundError ''gone'') else Raises (OtherException ''boom''))"

definition returns_empty :: client where
  "returns_empty k r = Returns []"

definition example_libs :: libraries where
  "example_libs =
     \<lparr>PdfReader = (\<lambda>file_path. Inr [Inr ''A'', Inr ''B'', Inr ''C'']),
      Document = (\<lambda>file_path. Inl (OtherException ''File is not a zip file'')),
      Presentation = (\<lambda>file_path.
        Inr [[Inr ''Title'', Inl (AttributeError ''no attribute text'')], [Inr ''Body'']])\<rparr>"



text \<open>
  A directory \<open>temp_uploads\<close> without subdirectories: writing to a path with a further
  slash raises.
\<close>

definition flat_temp_dir :: "string \<Rightarrow> pyexn option" where
  "flat_temp_dir file_path =
     (if CHR ''/'' \<in> set (drop (length TEMP_DIR + 1) file_path)
      then Some (OtherException ''[Errno 2] No such file or directory'')
      else None)"

definition no_key_env :: environment where
  "no_key_env =
     \<lparr>ANTHROPIC_API_KEY = None, import_anthropic = None,
      Anthropic = (\<lambda>api_key. Inl (OtherException ''no api key''))\<rparr>"

definition example_prompt :: "string \<Rightarrow> string" where
  "example_prompt extracted_text = ''Structure this document: '' @ extracted_text"

text \<open>A line of 91 characters.\<close>

definition long_line :: string where
  "long_line = ''aaaaaaaaaaaaaaaaaaaaaaaaaaaaaaaaaaaaaaaaaaaaaaaaaaaaaaaaaaaaaaaaaaaaaaaaaaaaaaaaaaaaaaaaaaa''"


section \<open>Properties of the AI invoker\<close>

lemma issued_then_pair [simp]: "issued_then rs (res, tr) = (res, rs @ tr)"
  by (simp add: issued_then_def)

lemma issued_then_Nil [simp]: "issued_then [] run = run"
  by (simp add: issued_then_def)

lemma issued_then_twice [simp]:
  "issued_then rs (issued_then rs' run) = issued_then (rs @ rs') run"
  by (simp add: issued_then_def)

lemma models_loop_not_found_prefix:
  assumes "\<forall>i < length ms. \<exists>msg.
             create (k + i) (first_request prompt (ms ! i)) = Raises (NotFoundError msg)"
    and "create (k + length ms) (first_request prompt m) = Returns text"
  shows "models_loop create prompt (ms @ [m]) k last_error =
           (Returned text, map (first_request prompt) (ms @ [m]))"
  using assms
proof (induction ms arbitrary: k last_error)
  case Nil
  then show ?case by simp
next
  case (Cons a ms)
  from Cons.prems(1) obtain msg where
    a: "create k (first_request prompt a) = Raises (NotFoundError msg)"
    by fastforce
  have "\<forall>i < length ms. \<exists>msg.
          create (Suc k + i) (first_request prompt (ms ! i)) = Raises (NotFoundError msg)"
  proof (intro allI impI)
    fix i assume "i < length ms"
    then have "Suc i < length (a # ms)" by simp
    with Cons.prems(1) have "\<exists>msg.
        create (k + Suc i) (first_request prompt ((a # ms) ! Suc i)) = Raises (NotFoundError msg)"
      by blast
    then show "\<exists>msg.
        create (Suc k + i) (first_request prompt (ms ! i)) = Raises (NotFoundError msg)"
      by simp
  qed
  moreover from Cons.prems(2) have
    "create (Suc k + length ms) (first_request prompt m) = Returns text"
    by simp
  ultimately have "models_loop create prompt (ms @ [m]) (Suc k) (Some (NotFoundError msg)) =
           (Returned text, map (first_request prompt) (ms @ [m]))"
    by (rule Cons.IH)
  with a show ?case by simp
qed

text \<open>
  C1. Whatever the candidate sequence \<open>ms @ [m]\<close> of length N: when the first request of
  each of the first N-1 candidates raises a model-not-found error and the one of the last
  candidate returns content, the loop returns that text, and the requests it issued are
  exactly the first requests of the N candidates, once each and in the configured order
  (so no candidate was retried).
\<close>

theorem not_found_fallback_returns_last:
  assumes "\<forall>i < length ms. \<exists>msg.
             create i (first_request prompt (ms ! i)) = Raises (NotFoundError msg)"
    and "create (length ms) (first_request prompt m) = Returns text"
  shows "models_loop create prompt (ms @ [m]) 0 None =
           (Returned text, map (first_request prompt) (ms @ [m]))"
  using assms
    models_loop_not_found_prefix [where ms = ms and create = create and k = 0 and m = m]
  by simp

theorem not_found_fallback_returns_last_witness:
  "models_loop not_found_then_ok ''p'' models_to_try 0 None
   = (Returned ''ok'', map (first_request ''p'') models_to_try)"
  using not_found_fallback_returns_last
    [where ms = "butlast models_to_try" and m = "last models_to_try" and prompt = "''p''"
       and create = not_found_then_ok]
  by (simp add: models_to_try_def not_found_then_ok_def)

lemma models_loop_append:
  "models_loop create prompt pre k le = (Exhausted le', tr0) \<Longrightarrow>
   models_loop create prompt (pre @ rest) k le =
     issued_then tr0 (models_loop create prompt rest (k + length tr0) le')"
proof (induction pre arbitrary: k le tr0)
  case Nil
  then show ?case by simp
next
  case (Cons m pre)
  show ?case
  proof (cases "create k (first_request prompt m)")
    case (Returns t)
    with Cons.prems show ?thesis by simp
  next
    case (Raises e)
    note IH1 = Cons.IH[of "Suc k" "Some e"]
    note IH2 = Cons.IH[of "Suc (Suc k)"]
    show ?thesis
    proof (cases "str_contains ''max_tokens'' (str_exn e) \<and> max_tokens_limit m > 4096 \<and> (\<exists>msg. e = BadRequestError msg)")
      case False
      with Raises Cons.prems IH1 show ?thesis
        by (cases e; cases "models_loop create prompt pre (Suc k) (Some e)") auto
    next
      case True
      then obtain msg where e: "e = BadRequestError msg" by blast
      show ?thesis
      proof (cases "create (Suc k) (retry_request prompt m)")
        case (Returns t)
        with True e Raises Cons.prems show ?thesis by simp
      next
        case r2: (Raises e2)
        with True e Raises Cons.prems IH2[of "Some e2"] show ?thesis
          by (cases "models_loop create prompt pre (Suc (Suc k)) (Some e2)") auto
      qed
    qed
  qed
qed

text \<open>
  C2. A candidate \<open>m\<close> that the loop reaches (the candidates \<open>pre\<close> before it are used up
  without a return, after the requests \<open>tr\<close>), whose first request raises a bad-request
  error with \<open>max_tokens\<close> in its message while its ceiling is above 4096, is retried:
  exactly one more request follows, for the same model and prompt with the ceiling 4096.
  When the retry returns content, that is the result. When the retry raises, whatever the
  class, the run goes on with the candidates \<open>rest\<close> after \<open>m\<close> and the retry's exception
  as \<open>last_error\<close>.
\<close>

theorem token_limit_retry:
  assumes "models_loop create prompt pre 0 None = (Exhausted last_error, tr)"
    and "create (length tr) (first_request prompt m) = Raises (BadRequestError msg)"
    and "str_contains ''max_tokens'' msg"
    and "max_tokens_limit m > 4096"
  shows "models_loop create prompt (pre @ m # rest) 0 None =
           (case create (Suc (length tr)) (retry_request prompt m) of
              Returns text \<Rightarrow>
                (Returned text, tr @ [first_request prompt m, retry_request prompt m])
            | Raises retry_e \<Rightarrow>
                issued_then (tr @ [first_request prompt m, retry_request prompt m])
                  (models_loop create prompt rest (length tr + 2) (Some retry_e)))
         \<and> retry_request prompt m = (first_request prompt m)\<lparr>max_tokens := 4096\<rparr>"
proof -
  have "models_loop create prompt (pre @ m # rest) 0 None =
          issued_then tr (models_loop create prompt (m # rest) (length tr) last_error)"
    using models_loop_append [OF assms(1), of "m # rest"] by simp
  moreover have "retry_request prompt m = (first_request prompt m)\<lparr>max_tokens := 4096\<rparr>"
    by (simp add: retry_request_def first_request_def)
  ultimately show ?thesis
    using assms(2-4) by (simp add: Let_def split: outcome.splits)
qed

theorem token_limit_retry_witness:
  "models_loop token_limit_then_overloaded ''p'' models_to_try 0 None =
     (Returned ''ok'',
      [\<lparr>model = ''claude-3-5-sonnet-20241022'', max_tokens = 8192, messages = ''p''\<rparr>,
       \<lparr>model = ''claude-3-5-sonnet-20241022'', max_tokens = 4096, messages = ''p''\<rparr>,
       \<lparr>model = ''claude-3-5-sonnet-20240620'', max_tokens = 8192, messages = ''p''\<rparr>])"
  using token_limit_retry
    [where pre = "[]" and m = "''claude-3-5-sonnet-20241022''" and rest = "tl models_to_try"
       and create = token_limit_then_overloaded and prompt = "''p''"
       and msg = "''max_tokens: 8192 > 4096''" and tr = "[]" and last_error = None]
  by (simp add: models_to_try_def token_limit_then_overloaded_def max_tokens_limit_def
        first_request_def retry_request_def)

text \<open>
  C4. A candidate \<open>m\<close> that the loop reaches, whose first request raises an exception that
  is neither a model-not-found nor a bad-request error, ends the run: the result is
  \<open>Error with model <m>: <message>\<close>, and the first request of \<open>m\<close> is the last request
  issued, so there is no retry and no candidate of \<open>rest\<close> is attempted.
\<close>

theorem other_exception_aborts:
  assumes "models_loop create prompt pre 0 None = (Exhausted last_error, tr)"
    and "create (length tr) (first_request prompt m) = Raises e"
    and "\<forall>msg. e \<noteq> NotFoundError msg"
    and "\<forall>msg. e \<noteq> BadRequestError msg"
  shows "models_loop create prompt (pre @ m # rest) 0 None =
           (Returned (''Error with model '' @ m @ '': '' @ str_exn e),
            tr @ [first_request prompt m])"
proof -
  have "models_loop create prompt (pre @ m # rest) 0 None =
          issued_then tr (models_loop create prompt (m # rest) (length tr) last_error)"
    using models_loop_append [OF assms(1), of "m # rest"] by simp
  then show ?thesis
    using assms(2-4) by (cases e) (simp_all add: Let_def)
qed

theorem other_exception_aborts_witness:
  "models_loop crash_on_second ''p'' models_to_try 0 None =
     (Returned ''Error with model claude-3-5-sonnet-20240620: boom'',
      [\<lparr>model = ''claude-3-5-sonnet-20241022'', max_tokens = 8192, messages = ''p''\<rparr>,
       \<lparr>model = ''claude-3-5-sonnet-20240620'', max_tokens = 8192, messages = ''p''\<rparr>])"
  using other_exception_aborts
    [where pre = "[''claude-3-5-sonnet-20241022'']" and m = "''claude-3-5-sonnet-20240620''"
       and rest = "tl (tl models_to_try)" and create = crash_on_second and prompt = "''p''"
       and e = "OtherException ''boom''"
       and tr = "[first_request ''p'' ''claude-3-5-sonnet-20241022'']"
       and last_error = "Some (NotFoundError ''gone'')"]
  by (simp add: models_to_try_def crash_on_second_def max_tokens_limit_def first_request_def)

lemma all_nth_Cons_hd:
  "\<forall>i<length (x # xs). P (k + i) ((x # xs) ! i) \<Longrightarrow> P k x"
  by fastforce

lemma all_nth_Cons_tl:
  assumes "\<forall>i<length (x # xs). P (k + i) ((x # xs) ! i)"
  shows "\<forall>i<length xs. P (Suc k + i) (xs ! i)"
proof (intro allI impI)
  fix i assume "i < length xs"
  then have "Suc i < length (x # xs)" by simp
  with assms have "P (k + Suc i) ((x # xs) ! Suc i)" by blast
  then show "P (Suc k + i) (xs ! i)" by simp
qed

lemma is_first_attempt_first [simp]: "is_first_attempt (first_request prompt m)"
  by (simp add: is_first_attempt_def first_request_def)

lemma is_first_attempt_retry [simp]:
  "max_tokens_limit m > 4096 \<Longrightarrow> \<not> is_first_attempt (retry_request prompt m)"
  by (simp add: is_first_attempt_def retry_request_def)

lemma model_first_request [simp]: "model (first_request prompt m) = m"
  by (simp add: first_request_def)

lemma models_loop_all_fail:
  assumes "models_loop create prompt ms k le = (res, tr)"
    and "\<forall>i<length tr. fails_on create (k + i) (tr ! i)"
  shows "map model (filter is_first_attempt tr) = ms \<and>
         (\<exists>le'. res = Exhausted le' \<and>
            (if tr = [] then le' = le
             else \<exists>e. le' = Some e \<and> create (k + length tr - 1) (last tr) = Raises e))"
  using assms
proof (induction ms arbitrary: k le res tr)
  case Nil
  then show ?case by simp
next
  case (Cons m ms)
  let ?r = "first_request prompt m"
  let ?r' = "retry_request prompt m"
  show ?case
  proof (cases "create k ?r")
    case (Returns t)
    with Cons.prems(1) have "tr = [?r]" by simp
    with Cons.prems(2) have "fails_on create k ?r"
      using all_nth_Cons_hd [where P = "fails_on create"] by blast
    with Returns show ?thesis by (simp add: fails_on_def)
  next
    case (Raises e)
    show ?thesis
    proof (cases "\<exists>msg. e = BadRequestError msg \<and> str_contains ''max_tokens'' msg
                    \<and> max_tokens_limit m > 4096")
      case True
      then obtain msg where e: "e = BadRequestError msg" "str_contains ''max_tokens'' msg"
        and lim: "max_tokens_limit m > 4096" by blast
      show ?thesis
      proof (cases "create (Suc k) ?r'")
        case (Returns t)
        with e lim Raises Cons.prems(1) have "tr = [?r, ?r']" by (simp add: Let_def)
        with Cons.prems(2) have "\<forall>i<length [?r']. fails_on create (Suc k + i) ([?r'] ! i)"
          using all_nth_Cons_tl [where P = "fails_on create"] by blast
        then have "fails_on create (Suc k) ?r'"
          using all_nth_Cons_hd [where P = "fails_on create"] by blast
        with Returns show ?thesis by (simp add: fails_on_def)
      next
        case r2: (Raises e2)
        obtain res' tr' where run: "models_loop create prompt ms (Suc (Suc k)) (Some e2) = (res', tr')"
          by (cases "models_loop create prompt ms (Suc (Suc k)) (Some e2)")
        with e lim Raises r2 Cons.prems(1) have tr: "tr = ?r # ?r' # tr'" and res: "res = res'"
          by (simp_all add: Let_def)
        from Cons.prems(2) have "\<forall>i<length (?r' # tr').
            fails_on create (Suc k + i) ((?r' # tr') ! i)"
          unfolding tr by (rule all_nth_Cons_tl)
        then have "\<forall>i<length tr'. fails_on create (Suc (Suc k) + i) (tr' ! i)"
          by (rule all_nth_Cons_tl)
        from Cons.IH [OF run this] tr res r2 lim show ?thesis
          by (cases "tr' = []") auto
      qed
    next
      case False
      show ?thesis
      proof (cases "\<exists>msg. e = NotFoundError msg \<or> e = BadRequestError msg")
        case cont: True
        obtain res' tr' where run: "models_loop create prompt ms (Suc k) (Some e) = (res', tr')"
          by (cases "models_loop create prompt ms (Suc k) (Some e)")
        with cont False Raises Cons.prems(1) have tr: "tr = ?r # tr'" and res: "res = res'"
          by (auto simp add: Let_def)
        from Cons.prems(2) have "\<forall>i<length tr'. fails_on create (Suc k + i) (tr' ! i)"
          unfolding tr by (rule all_nth_Cons_tl)
        from Cons.IH [OF run this] tr res Raises show ?thesis
          by (cases "tr' = []") auto
      next
        case other: False
        with Raises Cons.prems(1) have "tr = [?r]" by (cases e) (simp_all add: Let_def)
        with Cons.prems(2) have "fails_on create k ?r"
          using all_nth_Cons_hd [where P = "fails_on create"] by blast
        with Raises other show ?thesis by (simp add: fails_on_def)
      qed
    qed
  qed
qed

lemma call_claude_api_connects:
  assumes "connects env create"
  shows "call_claude_api env prompt =
           (case models_loop create prompt models_to_try 0 None of
              (Returned text, tr) \<Rightarrow> (Inr (Some text), tr)
            | (Exhausted last_error, tr) \<Rightarrow> (Inr (Some (exhausted_message last_error)), tr))"
  using assms
  by (auto simp: connects_def call_claude_api_def call_claude_api_body_def try_except_def
      split: option.splits prod.splits loop_end.splits)

lemma connects_example_env [simp]: "connects (example_env create) create"
  by (simp add: connects_def example_env_def)

lemma call_claude_api_example_env:
  "call_claude_api (example_env create) prompt =
     (case models_loop create prompt models_to_try 0 None of
        (Returned text, tr) \<Rightarrow> (Inr (Some text), tr)
      | (Exhausted last_error, tr) \<Rightarrow> (Inr (Some (exhausted_message last_error)), tr))"
  by (rule call_claude_api_connects) simp

text \<open>
  C3, as amended. In surroundings where \<open>call_claude_api\<close> reaches its loop: when every
  request it issued raised, and every first attempt among them raised a model-not-found
  or a bad-request error (so that no \<open>except\<close> clause returned), then every configured
  candidate was attempted, in order, and the result is a string, not an exception:
  \<open>Error: No working Claude model found. Last error: \<close> followed by the message of the
  exception that the last request raised, which is the last error recorded.
\<close>

theorem exhausted_reports_last_error:
  assumes "connects env create"
    and "call_claude_api env prompt = (res, tr)"
    and "\<forall>i<length tr. \<exists>e. create i (tr ! i) = Raises e \<and>
            (is_first_attempt (tr ! i) \<longrightarrow>
               (\<exists>msg. e = NotFoundError msg \<or> e = BadRequestError msg))"
  shows "map model (filter is_first_attempt tr) = models_to_try \<and>
         (\<exists>e. create (length tr - 1) (last tr) = Raises e \<and>
              res = Inr (Some (''Error: No working Claude model found. Last error: ''
                               @ str_exn e)))"
proof -
  obtain res' tr' where run: "models_loop create prompt models_to_try 0 None = (res', tr')"
    by (cases "models_loop create prompt models_to_try 0 None")
  with assms(1,2) have tr: "tr' = tr"
    and res: "res = (case res' of Returned text \<Rightarrow> Inr (Some text)
                      | Exhausted last_error \<Rightarrow> Inr (Some (exhausted_message last_error)))"
    by (auto simp: call_claude_api_connects split: loop_end.splits)
  from assms(3) have "\<forall>i<length tr. fails_on create (0 + i) (tr ! i)"
    by (simp add: fails_on_def)
  from models_loop_all_fail [OF run [unfolded tr] this]
  have attempted: "map model (filter is_first_attempt tr) = models_to_try"
    and ended: "\<exists>le'. res' = Exhausted le' \<and>
            (if tr = [] then le' = None
             else \<exists>e. le' = Some e \<and> create (0 + length tr - 1) (last tr) = Raises e)"
    by blast+
  from attempted have "tr \<noteq> []" by (auto simp: models_to_try_def)
  with ended res attempted show ?thesis
    by (auto simp: exhausted_message_def)
qed

theorem exhausted_reports_last_error_witness:
  "fst (call_claude_api (example_env always_token_limit) ''p'') =
     Inr (Some ''Error: No working Claude model found. Last error: max_tokens too large'')
   \<and> map model (snd (call_claude_api (example_env always_token_limit) ''p'')) =
      [''claude-3-5-sonnet-20241022'', ''claude-3-5-sonnet-20241022'',
       ''claude-3-5-sonnet-20240620'', ''claude-3-5-sonnet-20240620'',
       ''claude-3-opus-20240229'', ''claude-3-sonnet-20240229'', ''claude-3-haiku-20240307'']"
proof -
  let ?env = "example_env always_token_limit"
  obtain res tr where run: "call_claude_api ?env ''p'' = (res, tr)"
    by (cases "call_claude_api ?env ''p''")
  have fails: "\<forall>i<length tr. \<exists>e. always_token_limit i (tr ! i) = Raises e \<and>
            (is_first_attempt (tr ! i) \<longrightarrow>
               (\<exists>msg. e = NotFoundError msg \<or> e = BadRequestError msg))"
    by (simp add: always_token_limit_def)
  have tr: "map model tr =
      [''claude-3-5-sonnet-20241022'', ''claude-3-5-sonnet-20241022'',
       ''claude-3-5-sonnet-20240620'', ''claude-3-5-sonnet-20240620'',
       ''claude-3-opus-20240229'', ''claude-3-sonnet-20240229'', ''claude-3-haiku-20240307'']"
    using run
    by (auto simp add: call_claude_api_example_env models_to_try_def always_token_limit_def
        max_tokens_limit_def first_request_def retry_request_def)
  from exhausted_reports_last_error [OF connects_example_env run fails] tr run
  show ?thesis by (auto simp: always_token_limit_def)
qed

text \<open>
  C3 as stated fails. When all five candidates are not found, the result does not contain
  \<open>no working model found\<close>, in whatever case: the text of the code is
  \<open>No working Claude model found\<close>. And
  when the last candidate raises an exception of another class, every candidate has been
  attempted and none returned content, yet the result is the \<open>Error with model\<close> string.
\<close>

theorem exhausted_message_counterexample:
  "call_claude_api (example_env always_not_found) ''p'' =
     (Inr (Some ''Error: No working Claude model found. Last error: gone''),
      map (first_request ''p'') models_to_try)
   \<and> \<not> str_contains ''no working model found''
         ''Error: No working Claude model found. Last error: gone''
   \<and> \<not> str_contains ''no working model found''
         (lower ''Error: No working Claude model found. Last error: gone'')
   \<and> call_claude_api (example_env not_found_then_crash) ''p'' =
     (Inr (Some ''Error with model claude-3-haiku-20240307: boom''),
      map (first_request ''p'') models_to_try)
   \<and> \<not> str_contains ''no working model found''
         ''Error with model claude-3-haiku-20240307: boom''"
  by (simp add: call_claude_api_example_env models_to_try_def always_not_found_def
      not_found_then_crash_def exhausted_message_def lower_def)

section \<open>Properties of the extractor\<close>

lemma rfind_range: "- 1 \<le> rfind c s \<and> rfind c s < int (length s)"
  by (induction s) (auto simp: Let_def)

lemma rfind_nth: "0 \<le> rfind c s \<Longrightarrow> s ! nat (rfind c s) = c"
proof (induction s)
  case Nil
  then show ?case by simp
next
  case (Cons x xs)
  show ?case
  proof (cases "0 \<le> rfind c xs")
    case True
    with Cons.IH have "xs ! nat (rfind c xs) = c" by simp
    moreover from True have "nat (rfind c xs + 1) = Suc (nat (rfind c xs))" by simp
    ultimately show ?thesis using True by (simp add: Let_def)
  next
    case False
    with Cons.prems show ?thesis by (simp add: Let_def split: if_splits)
  qed
qed

lemma rfind_ge: "j < length s \<Longrightarrow> s ! j = c \<Longrightarrow> int j \<le> rfind c s"
proof (induction s arbitrary: j)
  case Nil
  then show ?case by simp
next
  case (Cons x xs)
  show ?case
  proof (cases j)
    case 0
    with Cons.prems show ?thesis
      using rfind_range [of c xs] by (auto simp: Let_def)
  next
    case (Suc i)
    with Cons.prems have "i < length xs" "xs ! i = c" by simp_all
    then have "int i \<le> rfind c xs" by (rule Cons.IH)
    with Suc show ?thesis by (simp add: Let_def)
  qed
qed

lemma rfind_absent: "c \<notin> set s \<Longrightarrow> rfind c s = - 1"
  by (induction s) (auto simp: Let_def)

lemma not_in_drop_after_rfind:
  assumes "rfind c s < int n"
  shows "c \<notin> set (drop n s)"
proof
  assume "c \<in> set (drop n s)"
  then obtain i where i: "i < length (drop n s)" "drop n s ! i = c"
    by (auto simp: in_set_conv_nth)
  then have "n + i < length s" "s ! (n + i) = c" by auto
  then have "int (n + i) \<le> rfind c s" by (rule rfind_ge)
  with assms show False by simp
qed

lemma splitext_parts:
  "fst (splitext p) @ snd (splitext p) = p \<and>
   (snd (splitext p) = [] \<or>
    (\<exists>rest. snd (splitext p) = CHR ''.'' # rest
        \<and> CHR ''.'' \<notin> set rest \<and> CHR ''/'' \<notin> set rest))"
proof (cases "rfind CHR ''.'' p > rfind CHR ''/'' p
        \<and> skip_leading_dots p (nat (rfind CHR ''/'' p + 1)) (nat (rfind CHR ''.'' p))")
  case False
  then show ?thesis by (auto simp: splitext_def Let_def)
next
  case True
  let ?d = "nat (rfind CHR ''.'' p)"
  from True rfind_range [of "CHR ''/''" p] have nonneg: "0 \<le> rfind CHR ''.'' p" by simp
  with rfind_range [of "CHR ''.''" p] have d: "?d < length p" by simp
  from nonneg have "p ! ?d = CHR ''.''" by (rule rfind_nth)
  with d have drop: "drop ?d p = CHR ''.'' # drop (Suc ?d) p"
    by (simp add: Cons_nth_drop_Suc [symmetric])
  have "rfind CHR ''.'' p < int (Suc ?d)" using nonneg by simp
  then have nodot: "CHR ''.'' \<notin> set (drop (Suc ?d) p)" by (rule not_in_drop_after_rfind)
  have "rfind CHR ''/'' p < int (Suc ?d)" using True nonneg by simp
  then have noslash: "CHR ''/'' \<notin> set (drop (Suc ?d) p)" by (rule not_in_drop_after_rfind)
  from True have parts: "splitext p = (take ?d p, drop ?d p)"
    by (simp add: splitext_def Let_def)
  then have "fst (splitext p) @ snd (splitext p) = p" by simp
  moreover from parts drop have "snd (splitext p) = CHR ''.'' # drop (Suc ?d) p" by simp
  ultimately show ?thesis using nodot noslash by blast
qed

lemma splitext_no_dot: "CHR ''.'' \<notin> set p \<Longrightarrow> snd (splitext p) = []"
  using rfind_range [of "CHR ''/''" p] by (simp add: splitext_def Let_def rfind_absent)

lemma lower_char_dot [simp]: "lower_char CHR ''.'' = CHR ''.''"
  by simp

text \<open>
  C6. For a path whose extension \<open>ext\<close>, lowercased, is none of \<open>.pdf\<close>, \<open>.docx\<close>, \<open>.pptx\<close>,
  \<open>extract_text\<close> raises nothing and returns exactly \<open>Unsupported file format: <ext>\<close>.
  That \<open>ext\<close> is the lowercased tail of the path from its last dot on, with no dot and no
  slash after that dot: it is empty or begins with the dot, and it is empty when the path
  has no dot.
\<close>

theorem unsupported_extension_reported:
  assumes "ext = lower (snd (splitext file_path))"
    and "ext \<notin> {''.pdf'', ''.docx'', ''.pptx''}"
  shows "extract_text libs file_path = Inr (''Unsupported file format: '' @ ext)
       \<and> (ext = [] \<or> hd ext = CHR ''.'')
       \<and> (CHR ''.'' \<notin> set file_path \<longrightarrow> ext = [])
       \<and> (\<exists>root e. file_path = root @ e \<and> ext = lower e \<and>
             (e = [] \<or> (\<exists>rest. e = CHR ''.'' # rest
                 \<and> CHR ''.'' \<notin> set rest \<and> CHR ''/'' \<notin> set rest)))"
proof -
  from assms have "extract_text libs file_path = Inr (''Unsupported file format: '' @ ext)"
    by (simp add: extract_text_def Let_def)
  moreover have "ext = [] \<or> hd ext = CHR ''.''"
    using splitext_parts [of file_path] assms(1) by (auto simp: lower_def)
  moreover have "CHR ''.'' \<notin> set file_path \<longrightarrow> ext = []"
    using splitext_no_dot [of file_path] assms(1) by (simp add: lower_def)
  moreover have "\<exists>root e. file_path = root @ e \<and> ext = lower e \<and>
             (e = [] \<or> (\<exists>rest. e = CHR ''.'' # rest
                 \<and> CHR ''.'' \<notin> set rest \<and> CHR ''/'' \<notin> set rest))"
    using splitext_parts [of file_path] assms(1) by metis
  ultimately show ?thesis by simp
qed

lemma splitext_ex1: "splitext ''temp_uploads/notes.TXT'' = (''temp_uploads/notes'', ''.TXT'')"
  by code_simp

lemma splitext_ex2: "splitext ''temp_uploads/.bashrc'' = (''temp_uploads/.bashrc'', [])"
  by code_simp

theorem unsupported_extension_reported_witness:
  "extract_text example_libs ''temp_uploads/notes.TXT'' = Inr ''Unsupported file format: .txt''
   \<and> extract_text example_libs ''temp_uploads/.bashrc'' = Inr ''Unsupported file format: ''"
  using unsupported_extension_reported
    [where file_path = "''temp_uploads/notes.TXT''" and ext = "''.txt''" and libs = example_libs]
    unsupported_extension_reported
    [where file_path = "''temp_uploads/.bashrc''" and ext = "[]" and libs = example_libs]
  by (simp add: splitext_ex1 splitext_ex2 lower_def)

lemma try_except_Inr [simp]: "try_except (Inr v) handler = Inr v"
  by (simp add: try_except_def)

lemma try_except_Inl [simp]: "try_except (Inl e) handler = handler e"
  by (simp add: try_except_def)












lemma splitext_ex3: "splitext ''temp_uploads/report.PDF'' = (''temp_uploads/report'', ''.PDF'')"
  by code_simp





section \<open>Properties of the exporter\<close>

lemma str_split_not_Nil [simp]: "str_split sep s \<noteq> []"
  by (induction s) (auto split: list.splits)

lemma join_Cons_Cons: "join sep ((c # x) # xs) = c # join sep (x # xs)"
  by (cases xs) simp_all

lemma join_str_split: "join [sep] (str_split sep s) = s"
proof (induction s)
  case Nil
  then show ?case by simp
next
  case (Cons c cs)
  obtain piece pieces where sp: "str_split sep cs = piece # pieces"
    by (cases "str_split sep cs") simp_all
  with Cons.IH show ?case by (simp add: join_Cons_Cons)
qed

lemma str_split_no_sep: "line \<in> set (str_split sep s) \<Longrightarrow> sep \<notin> set line"
proof (induction s arbitrary: line)
  case Nil
  then show ?case by simp
next
  case (Cons c cs)
  obtain piece pieces where sp: "str_split sep cs = piece # pieces"
    by (cases "str_split sep cs") simp_all
  with Cons.IH [of piece] Cons.IH [of line] Cons.prems show ?case
    by (auto split: if_splits)
qed

lemma textLine_arg_cases:
  "textLine_arg line = (if length line > 90 then take 90 line @ ''...'' else line)"
  by (simp add: textLine_arg_def)

lemma pdf_lines_loop_break:
  "y < 40 \<Longrightarrow> pdf_lines_loop height (line # lines) pages text_object y =
     pdf_lines_loop height lines (pages @ [text_object])
       [(height - 40, textLine_arg line)] (height - 40 - 12)"
  by simp

lemma pdf_lines_loop_no_break:
  "\<not> y < 40 \<Longrightarrow> pdf_lines_loop height (line # lines) pages text_object y =
     pdf_lines_loop height lines pages (text_object @ [(y, textLine_arg line)]) (y - 12)"
  by simp

lemma pdf_lines_loop_texts:
  "pdf_lines_loop height lines pages text_object y = (pages', text_object') \<Longrightarrow>
   concat (map (map snd) (pages' @ [text_object'])) =
     concat (map (map snd) (pages @ [text_object])) @ map textLine_arg lines"
proof (induction lines arbitrary: pages text_object y)
  case Nil
  then show ?case by simp
next
  case (Cons line lines)
  show ?case
  proof (cases "y < 40")
    case True
    with Cons.prems have "pdf_lines_loop height lines (pages @ [text_object])
       [(height - 40, textLine_arg line)] (height - 40 - 12) = (pages', text_object')"
      by simp
    from Cons.IH [OF this] show ?thesis by simp
  next
    case False
    with Cons.prems have "pdf_lines_loop height lines pages
       (text_object @ [(y, textLine_arg line)]) (y - 12) = (pages', text_object')"
      by simp
    from Cons.IH [OF this] show ?thesis by simp
  qed
qed

lemma pdf_pages_texts:
  "concat (map (map snd) (pdf_pages x)) = map textLine_arg (str_split CHR ''\<newline>'' x)"
proof -
  obtain pages text_object where
    run: "pdf_lines_loop (snd letter) (str_split CHR ''\<newline>'' x) [] [] (snd letter - 40)
            = (pages, text_object)"
    by (cases "pdf_lines_loop (snd letter) (str_split CHR ''\<newline>'' x) [] [] (snd letter - 40)")
  from pdf_lines_loop_texts [OF run] run show ?thesis
    by (simp add: pdf_pages_def Let_def)
qed

text \<open>
  C7. The PDF export splits the content at the newline characters (the pieces joined by
  newlines give the content back, and no piece contains a newline), and the texts of the
  lines it emits, over all pages in order, are those pieces, each one unchanged when it
  has at most 90 characters and otherwise cut to its first 90 characters followed by
  \<open>...\<close>.
\<close>

theorem pdf_lines_truncated_at_90:
  "concat (map (map snd) (pdf_pages x)) =
     map (\<lambda>line. if length line > 90 then take 90 line @ ''...'' else line)
       (str_split CHR ''\<newline>'' x)
   \<and> join ''\<newline>'' (str_split CHR ''\<newline>'' x) = x
   \<and> (\<forall>line \<in> set (str_split CHR ''\<newline>'' x). CHR ''\<newline>'' \<notin> set line)"
  by (simp add: pdf_pages_texts textLine_arg_cases join_str_split str_split_no_sep)

lemma str_split_long: "str_split CHR ''\<newline>'' (long_line @ ''\<newline>short'') = [long_line, ''short'']"
  unfolding long_line_def by simp

lemma length_long_line: "length long_line = 91"
  unfolding long_line_def by simp

theorem pdf_lines_truncated_at_90_witness:
  "concat (map (map snd) (pdf_pages (long_line @ ''\<newline>short''))) =
     [''aaaaaaaaaaaaaaaaaaaaaaaaaaaaaaaaaaaaaaaaaaaaaaaaaaaaaaaaaaaaaaaaaaaaaaaaaaaaaaaaaaaaaaaaaa...'', ''short'']"
  using pdf_lines_truncated_at_90 [of "long_line @ ''\<newline>short''"]
  by (simp add: str_split_long length_long_line) (simp add: long_line_def)

lemma page_cursor_ok_Nil [simp]: "page_cursor_ok []"
  by (simp add: page_cursor_ok_def)

lemma page_cursor_ok_snoc:
  "page_cursor_ok page \<Longrightarrow> y = snd letter - 40 - 12 * int (length page) \<Longrightarrow>
   page_cursor_ok (page @ [(y, t)])"
  by (simp add: page_cursor_ok_def)

lemma pdf_lines_loop_pages:
  assumes "pdf_lines_loop (snd letter) lines pages text_object y = (pages', text_object')"
    and "\<forall>page \<in> set pages. page_cursor_ok page \<and> length page = 60"
    and "page_cursor_ok text_object"
    and "y = snd letter - 40 - 12 * int (length text_object)"
    and "length text_object \<le> 60"
    and "lines \<noteq> [] \<or> text_object \<noteq> []"
  shows "(\<forall>page \<in> set pages'. page_cursor_ok page \<and> length page = 60)
       \<and> page_cursor_ok text_object' \<and> length text_object' \<le> 60 \<and> text_object' \<noteq> []"
  using assms
proof (induction lines arbitrary: pages text_object y)
  case Nil
  then show ?case by simp
next
  case (Cons line lines)
  show ?case
  proof (cases "y < 40")
    case True
    with Cons.prems(4,5) have full: "length text_object = 60" by (simp add: letter_def)
    from True Cons.prems(1) have run: "pdf_lines_loop (snd letter) lines (pages @ [text_object])
       [(snd letter - 40, textLine_arg line)] (snd letter - 40 - 12) = (pages', text_object')"
      by simp
    have "page_cursor_ok [(snd letter - 40, textLine_arg line)]"
      by (simp add: page_cursor_ok_def)
    with Cons.prems(2,3) full show ?thesis
      by (intro Cons.IH [OF run]) auto
  next
    case False
    with Cons.prems(4,5) have room: "length text_object < 60" by (simp add: letter_def)
    from False Cons.prems(1) have run: "pdf_lines_loop (snd letter) lines pages
       (text_object @ [(y, textLine_arg line)]) (y - 12) = (pages', text_object')"
      by simp
    from Cons.prems(3,4) have "page_cursor_ok (text_object @ [(y, textLine_arg line)])"
      by (rule page_cursor_ok_snoc)
    with Cons.prems(2,4) room show ?thesis
      by (intro Cons.IH [OF run]) auto
  qed
qed

lemma page_cursor_ok_above_margin:
  assumes "page_cursor_ok page" and "length page \<le> 60" and "(y, t) \<in> set page"
  shows "40 \<le> y"
proof -
  from assms(3) have "y \<in> set (map fst page)" by force
  with assms(1) obtain i where "i < length page" "y = snd letter - 40 - 12 * int i"
    by (auto simp: page_cursor_ok_def)
  with assms(2) show ?thesis by (simp add: letter_def)
qed

text \<open>
  C8. The PDF export produces at least one page, and on every page the cursor of the first
  line is the page height minus 40 and the cursor of each further line is 12 below the one
  before. A page holds at most 60 lines, and every page but the last holds exactly 60: a
  new page is started exactly when the next line would lie below the bottom margin. Hence
  every line is emitted at a cursor of at least 40, and content of more than 60 lines, the
  number that fits on one page, gives more than one page.
\<close>

theorem pdf_pagination:
  "pdf_pages x \<noteq> []
   \<and> (\<forall>page \<in> set (pdf_pages x).
        page \<noteq> [] \<and> length page \<le> 60
        \<and> map fst page = map (\<lambda>i. snd letter - 40 - 12 * int i) [0..<length page])
   \<and> (\<forall>page \<in> set (butlast (pdf_pages x)). length page = 60)
   \<and> (\<forall>page \<in> set (pdf_pages x). \<forall>(y, t) \<in> set page. 40 \<le> y)
   \<and> (length (str_split CHR ''\<newline>'' x) > 60 \<longrightarrow> length (pdf_pages x) > 1)"
proof -
  let ?lines = "str_split CHR ''\<newline>'' x"
  obtain pages text_object where
    run: "pdf_lines_loop (snd letter) ?lines [] [] (snd letter - 40) = (pages, text_object)"
    by (cases "pdf_lines_loop (snd letter) ?lines [] [] (snd letter - 40)")
  then have pp: "pdf_pages x = pages @ [text_object]"
    by (simp add: pdf_pages_def Let_def)
  from pdf_lines_loop_pages [OF run]
  have full: "\<forall>page \<in> set pages. page_cursor_ok page \<and> length page = 60"
    and last: "page_cursor_ok text_object" "length text_object \<le> 60" "text_object \<noteq> []"
    by simp_all
  have ok: "\<forall>page \<in> set (pdf_pages x). page \<noteq> [] \<and> length page \<le> 60 \<and> page_cursor_ok page"
    using full last pp by auto
  have above: "\<forall>page \<in> set (pdf_pages x). \<forall>(y, t) \<in> set page. 40 \<le> y"
    using ok page_cursor_ok_above_margin by blast
  have many: "length ?lines > 60 \<longrightarrow> length (pdf_pages x) > 1"
  proof
    assume more: "length ?lines > 60"
    have "length (concat (map (map snd) (pdf_pages x))) = length ?lines"
      by (simp add: pdf_pages_texts)
    show "length (pdf_pages x) > 1"
    proof (rule ccontr)
      assume "\<not> length (pdf_pages x) > 1"
      with pp have "pages = []" by simp
      with pp have "concat (map (map snd) (pdf_pages x)) = map snd text_object" by simp
      with \<open>length (concat (map (map snd) (pdf_pages x))) = length ?lines\<close>
      have "length text_object = length ?lines" by simp
      with last(2) more show False by simp
    qed
  qed
  from pp have "pdf_pages x \<noteq> []" by simp
  moreover from ok have "\<forall>page \<in> set (pdf_pages x).
        page \<noteq> [] \<and> length page \<le> 60
        \<and> map fst page = map (\<lambda>i. snd letter - 40 - 12 * int i) [0..<length page]"
    by (simp add: page_cursor_ok_def)
  moreover from pp full have "\<forall>page \<in> set (butlast (pdf_pages x)). length page = 60" by simp
  ultimately show ?thesis using above many by blast
qed

lemma str_split_replicate: "str_split sep (replicate n sep) = replicate (Suc n) []"
  by (induction n) simp_all

theorem pdf_pagination_witness:
  "1 < length (pdf_pages (replicate 60 CHR ''\<newline>''))
   \<and> pdf_pages ''a\<newline>b'' = [[(752, ''a''), (740, ''b'')]]"
  using pdf_pagination [of "replicate 60 CHR ''\<newline>''"] pdf_pagination [of "''a\<newline>b''"]
  by (simp add: str_split_replicate pdf_pages_def letter_def textLine_arg_def)

text \<open>
  C9. For every content \<open>x\<close> and file name \<open>f\<close>, the export with format \<open>md\<close> answers with
  the payload \<open>x\<close> itself, the media type \<open>text/markdown\<close> and the suggested file name
  \<open>f.md\<close>, and the export with format \<open>txt\<close> with \<open>x\<close> itself, \<open>text/plain\<close> and \<open>f.txt\<close>.
\<close>

theorem text_export_is_identity:
  "download_result \<lparr>content = x, format = ''md'', filename = f\<rparr> =
     Inr \<lparr>response_content = Text x, media_type = ''text/markdown'',
          headers = [(''Content-Disposition'', ''attachment; filename='' @ f @ ''.md'')]\<rparr>
   \<and> download_result \<lparr>content = x, format = ''txt'', filename = f\<rparr> =
     Inr \<lparr>response_content = Text x, media_type = ''text/plain'',
          headers = [(''Content-Disposition'', ''attachment; filename='' @ f @ ''.txt'')]\<rparr>"
  by (simp add: download_result_def lower_def)

theorem text_export_is_identity_witness:
  "download_result \<lparr>content = ''# Title'', format = ''md'', filename = ''result''\<rparr> =
     Inr \<lparr>response_content = Text ''# Title'', media_type = ''text/markdown'',
          headers = [(''Content-Disposition'', ''attachment; filename=result.md'')]\<rparr>"
  using text_export_is_identity [of "''# Title''" "''result''"] by simp

section \<open>Properties of the upload handler\<close>

lemma str_contains_self: "str_contains sub (sub @ b)"
proof (cases "sub @ b")
  case Nil
  then show ?thesis by simp
next
  case (Cons c cs)
  have "prefix sub (sub @ b)" by simp
  with Cons show ?thesis by simp
qed

lemma str_contains_after: "str_contains sub t \<Longrightarrow> str_contains sub (a @ t)"
proof (induction a)
  case Nil
  then show ?case by simp
next
  case (Cons x a)
  then show ?case by simp
qed

lemma call_claude_api_no_key:
  "ANTHROPIC_API_KEY env = None \<Longrightarrow> call_claude_api env prompt = (Inr None, [])"
  by (simp add: call_claude_api_def)

lemma call_claude_api_empty_completion:
  assumes "connects env create"
    and "fst (models_loop create prompt models_to_try 0 None) = Returned []"
  shows "fst (call_claude_api env prompt) = Inr (Some [])"
proof -
  obtain tr where "models_loop create prompt models_to_try 0 None = (Returned [], tr)"
    using assms(2) by (cases "models_loop create prompt models_to_try 0 None") simp
  with assms(1) show ?thesis by (simp add: call_claude_api_connects)
qed

lemma mock_response_count:
  "str_contains (''The document contains '' @ str_nat (length extracted_text) @ '' characters.'')
     (mock_response file_name extracted_text)"
proof -
  let ?sub = "''The document contains '' @ str_nat (length extracted_text) @ '' characters.''"
  have "mock_response file_name extracted_text =
      (''\<newline># Extracted Structure for '' @ file_name @ '' (SIMULATION)\<newline>''
       @ ''\<newline>''
       @ ''(No valid ANTHROPIC_API_KEY found in backend/.env, so this is a simulated response.)\<newline>''
       @ ''\<newline>''
       @ ''## Summary\<newline>'')
      @ ?sub @ (''\<newline>'' @ ''\<newline>''
     @ ''## Mock Data Points\<newline>''
     @ ''- **Category 1**: Simulation Data A\<newline>''
     @ ''- **Category 2**: Simulation Data B\<newline>'')"
    by (simp add: mock_response_def)
  then show ?thesis
    by (simp only: str_contains_after str_contains_self)
qed

lemma mock_response_data_points:
  "str_contains ''- **Category 1**: Simulation Data A'' (mock_response file_name extracted_text)
   \<and> str_contains ''- **Category 2**: Simulation Data B'' (mock_response file_name extracted_text)"
proof -
  let ?a = "''- **Category 1**: Simulation Data A''"
  let ?b = "''- **Category 2**: Simulation Data B''"
  have "mock_response file_name extracted_text =
      (''\<newline># Extracted Structure for '' @ file_name @ '' (SIMULATION)\<newline>''
       @ ''\<newline>''
       @ ''(No valid ANTHROPIC_API_KEY found in backend/.env, so this is a simulated response.)\<newline>''
       @ ''\<newline>''
       @ ''## Summary\<newline>''
       @ ''The document contains '' @ str_nat (length extracted_text) @ '' characters.\<newline>''
       @ ''\<newline>''
       @ ''## Mock Data Points\<newline>'')
      @ ?a @ (''\<newline>'' @ ?b @ ''\<newline>'')"
    by (simp add: mock_response_def)
  moreover have "mock_response file_name extracted_text =
      (''\<newline># Extracted Structure for '' @ file_name @ '' (SIMULATION)\<newline>''
       @ ''\<newline>''
       @ ''(No valid ANTHROPIC_API_KEY found in backend/.env, so this is a simulated response.)\<newline>''
       @ ''\<newline>''
       @ ''## Summary\<newline>''
       @ ''The document contains '' @ str_nat (length extracted_text) @ '' characters.\<newline>''
       @ ''\<newline>''
       @ ''## Mock Data Points\<newline>''
       @ ?a @ ''\<newline>'')
      @ ?b @ ''\<newline>''"
    by (simp add: mock_response_def)
  ultimately show ?thesis
    by (metis str_contains_after str_contains_self)
qed

text \<open>
  C10. For an upload that was written to its temporary path, the upload handler puts the
  simulated response in place of the invoker's result whenever that result is false for
  Python: for \<open>None\<close>, which \<open>call_claude_api\<close> returns without a key, and equally for the
  empty string, which it returns when the loop over the models returns an empty
  completion. In both cases the entry of the upload is the same, so the caller cannot tell
  them apart, and its \<open>ai_response\<close> is the simulated text, which contains the number of
  extracted characters and the two placeholder data points.
\<close>

theorem empty_completion_gets_simulated_response:
  assumes "ANTHROPIC_API_KEY env0 = None"
    and "connects env1 create"
    and "save_upload (temp_path file_name) = None"
    and "extract_text libs (temp_path file_name) = Inr extracted_text"
    and "fst (models_loop create (get_prompt_for_data extracted_text) models_to_try 0 None)
           = Returned []"
  shows "fst (call_claude_api env0 (get_prompt_for_data extracted_text)) = Inr None
       \<and> fst (call_claude_api env1 (get_prompt_for_data extracted_text)) = Inr (Some [])
       \<and> upload_file save_upload libs env1 get_prompt_for_data file_name =
           Inr [(''filename'', file_name),
                (''extracted_text_preview'', take 500 extracted_text @ ''...''),
                (''generated_prompt'', get_prompt_for_data extracted_text),
                (''ai_response'', mock_response file_name extracted_text)]
       \<and> upload_file save_upload libs env1 get_prompt_for_data file_name =
           upload_file save_upload libs env0 get_prompt_for_data file_name
       \<and> str_contains
            (''The document contains '' @ str_nat (length extracted_text) @ '' characters.'')
            (mock_response file_name extracted_text)
       \<and> str_contains ''- **Category 1**: Simulation Data A''
            (mock_response file_name extracted_text)
       \<and> str_contains ''- **Category 2**: Simulation Data B''
            (mock_response file_name extracted_text)"
proof -
  let ?prompt = "get_prompt_for_data extracted_text"
  have c0: "fst (call_claude_api env0 ?prompt) = Inr None"
    using assms(1) by (simp add: call_claude_api_no_key)
  have c1: "fst (call_claude_api env1 ?prompt) = Inr (Some [])"
    using assms(2,5) by (rule call_claude_api_empty_completion)
  have u0: "upload_file save_upload libs env0 get_prompt_for_data file_name =
           Inr [(''filename'', file_name),
                (''extracted_text_preview'', take 500 extracted_text @ ''...''),
                (''generated_prompt'', ?prompt),
                (''ai_response'', mock_response file_name extracted_text)]"
    using assms(3,4) c0 by (simp add: upload_file_def Let_def)
  have u1: "upload_file save_upload libs env1 get_prompt_for_data file_name =
           Inr [(''filename'', file_name),
                (''extracted_text_preview'', take 500 extracted_text @ ''...''),
                (''generated_prompt'', ?prompt),
                (''ai_response'', mock_response file_name extracted_text)]"
    using assms(3,4) c1 by (simp add: upload_file_def Let_def)
  from c0 c1 u0 u1 mock_response_count [of extracted_text file_name]
    mock_response_data_points [of file_name extracted_text]
  show ?thesis by simp
qed

lemma extract_report: "extract_text example_libs (temp_path ''report.PDF'') = Inr ''A\<newline>B\<newline>C\<newline>''"
  by (simp add: temp_path_def TEMP_DIR_def extract_text_def Let_def splitext_ex3 lower_def
      extract_text_from_pdf_def pdf_try_body_def example_libs_def)

lemma str_nat_report: "str_nat (length ''A\<newline>B\<newline>C\<newline>'') = ''6''"
  by (simp add: str_nat.simps)

lemma flat_temp_dir_report: "flat_temp_dir (temp_path ''report.PDF'') = None"
  by (simp add: flat_temp_dir_def temp_path_def TEMP_DIR_def)

lemma upload_into_missing_directory:
  "upload_file flat_temp_dir example_libs no_key_env example_prompt ''sub/report.pdf'' =
     Inl (OtherException ''[Errno 2] No such file or directory'')"
  by (simp add: upload_file_def flat_temp_dir_def temp_path_def TEMP_DIR_def)

theorem empty_completion_gets_simulated_response_witness:
  "upload_file flat_temp_dir example_libs (example_env returns_empty) example_prompt
     ''report.PDF'' =
     upload_file flat_temp_dir example_libs no_key_env example_prompt ''report.PDF''
   \<and> str_contains ''The document contains 6 characters.''
        (mock_response ''report.PDF'' ''A\<newline>B\<newline>C\<newline>'')
   \<and> upload_file flat_temp_dir example_libs no_key_env example_prompt ''sub/report.pdf'' =
       Inl (OtherException ''[Errno 2] No such file or directory'')"
proof -
  have no_key: "ANTHROPIC_API_KEY no_key_env = None"
    by (simp add: no_key_env_def)
  have empty: "fst (models_loop returns_empty (example_prompt ''A\<newline>B\<newline>C\<newline>'')
      models_to_try 0 None) = Returned []"
    by (simp add: returns_empty_def models_to_try_def)
  note facts = empty_completion_gets_simulated_response
    [where get_prompt_for_data = example_prompt and create = returns_empty
       and save_upload = flat_temp_dir and file_name = "''report.PDF''",
     OF no_key connects_example_env flat_temp_dir_report extract_report empty]
  from facts have same:
    "upload_file flat_temp_dir example_libs (example_env returns_empty) example_prompt
       ''report.PDF'' =
     upload_file flat_temp_dir example_libs no_key_env example_prompt ''report.PDF''"
    by blast
  from facts have "str_contains
      (''The document contains '' @ str_nat (length ''A\<newline>B\<newline>C\<newline>'') @ '' characters.'')
      (mock_response ''report.PDF'' ''A\<newline>B\<newline>C\<newline>'')"
    by blast
  then have "str_contains ''The document contains 6 characters.''
      (mock_response ''report.PDF'' ''A\<newline>B\<newline>C\<newline>'')"
    by (simp only: str_nat_report append.simps)
  with same upload_into_missing_directory show ?thesis by blast
qed

end
